theory Spec2Isabelle
  imports Main
begin

section \<open>The native bridge of ProFieldManager (native-lib.cpp)\<close>

text \<open>
  The library consists of one exported function,
  \<^verbatim>\<open>Java_com_profieldmanager_MainActivity_stringFromJNI(JNIEnv* env, jobject)\<close>.
  It builds a \<^verbatim>\<open>std::string\<close> from a literal, writes one line to the Android log through
  the macro \<^verbatim>\<open>LOGI\<close>, and returns \<^verbatim>\<open>env->NewStringUTF(hello.c_str())\<close>.

  The two things the function does beyond computing a value are made explicit: the log is
  a list of entries in the process state, and the Java runtime is a state of an arbitrary
  type \<open>'j\<close> that only the functions of the \<^verbatim>\<open>JNIEnv\<close> table read and write.
\<close>

subsection \<open>Platform types\<close>

text \<open>The priorities of \<^verbatim>\<open>android/log.h\<close>, in the order of the enum.\<close>

datatype android_LogPriority =
    ANDROID_LOG_UNKNOWN
  | ANDROID_LOG_DEFAULT
  | ANDROID_LOG_VERBOSE
  | ANDROID_LOG_DEBUG
  | ANDROID_LOG_INFO
  | ANDROID_LOG_WARN
  | ANDROID_LOG_ERROR
  | ANDROID_LOG_FATAL
  | ANDROID_LOG_SILENT

text \<open>
  One call of \<^verbatim>\<open>__android_log_print(prio, tag, fmt, ...)\<close>, recorded with the arguments
  it was given; \<open>args\<close> are the variadic arguments after the format.
\<close>

record log_entry =
  priority :: android_LogPriority
  tag :: string
  fmt :: string
  args :: "string list"

text \<open>
  A \<^verbatim>\<open>jobject\<close> is an opaque reference, \<open>None\<close> being \<^verbatim>\<open>NULL\<close>. A \<^verbatim>\<open>jstring\<close> is
  \<^verbatim>\<open>NULL\<close> or a Java string, which is identified with its contents.
\<close>

type_synonym jobject = "nat option"
type_synonym jstring = "string option"

abbreviation NULL :: "'a option" where
  "NULL \<equiv> None"

text \<open>
  \<^verbatim>\<open>JNIEnv\<close> is a table of functions supplied by the runtime. The only entry the library
  calls is \<^verbatim>\<open>NewStringUTF\<close>: given the bytes of a C string and the state of the runtime
  it yields a \<^verbatim>\<open>jstring\<close> and the new state of the runtime.
\<close>

record 'j JNIEnv =
  NewStringUTF :: "string \<Rightarrow> 'j \<Rightarrow> jstring \<times> 'j"

text \<open>
  The state a call runs in: the entries this process has sent to the Android log and the
  state of the Java runtime. The record is used through its extensible scheme, so any
  further state of the process is carried in the extension.
\<close>

record 'j process =
  logcat :: "log_entry list"
  jvm :: 'j

subsection \<open>C and C++ strings\<close>

text \<open>
  A C string ends at its first NUL byte. \<^verbatim>\<open>std::string(const char*)\<close> copies the bytes
  before it, and a reader of \<^verbatim>\<open>c_str()\<close> sees the bytes before the first NUL again.
  Both are functions of the bytes alone; exhaustion of the native allocator is outside
  the model.
\<close>

definition NUL :: char where
  "NUL = CHR 0x00"

definition std_string :: "string \<Rightarrow> string" where
  "std_string lit = takeWhile (\<lambda>c. c \<noteq> NUL) lit"

definition c_str :: "string \<Rightarrow> string" where
  "c_str s = takeWhile (\<lambda>c. c \<noteq> NUL) s"

subsection \<open>Logging\<close>

definition LOG_TAG :: string where
  "LOG_TAG = ''ProFieldManager''"

definition android_log_print ::
  "android_LogPriority \<Rightarrow> string \<Rightarrow> string \<Rightarrow> string list \<Rightarrow>
   ('j, 'z) process_scheme \<Rightarrow> ('j, 'z) process_scheme" where
  "android_log_print prio t f as w =
     w\<lparr>logcat := logcat w @ [\<lparr>priority = prio, tag = t, fmt = f, args = as\<rparr>]\<rparr>"

text \<open>\<^verbatim>\<open>#define LOGI(...) __android_log_print(ANDROID_LOG_INFO, LOG_TAG, __VA_ARGS__)\<close>\<close>

definition LOGI ::
  "string \<Rightarrow> string list \<Rightarrow> ('j, 'z) process_scheme \<Rightarrow> ('j, 'z) process_scheme" where
  "LOGI f as w = android_log_print ANDROID_LOG_INFO LOG_TAG f as w"

text \<open>
  The text a log entry shows. \<^verbatim>\<open>__android_log_print\<close> formats into a buffer of
  \<^verbatim>\<open>LOG_BUF_SIZE\<close> bytes with \<^verbatim>\<open>vsnprintf\<close>. Only formats without a conversion
  specification and without arguments are covered, where the text is the format itself
  cut to the buffer; every other entry has no text here.
\<close>

definition LOG_BUF_SIZE :: nat where
  "LOG_BUF_SIZE = 1024"

definition message :: "log_entry \<Rightarrow> string option" where
  "message e =
     (if args e = [] \<and> CHR ''%'' \<notin> set (fmt e)
      then Some (take (LOG_BUF_SIZE - 1) (fmt e)) else None)"

subsection \<open>The exported function\<close>

text \<open>
  \<^verbatim>\<open>
  std::string hello = "Pro Field Manager Native Library - 16KB Page Aligned";
  LOGI("Native library loaded successfully with 16KB page alignment");
  return env->NewStringUTF(hello.c_str());
  \<close>
  The second parameter has no name in the source and is never read.
\<close>

definition Java_com_profieldmanager_MainActivity_stringFromJNI ::
  "'j JNIEnv \<Rightarrow> jobject \<Rightarrow> ('j, 'z) process_scheme \<Rightarrow> jstring \<times> ('j, 'z) process_scheme" where
  "Java_com_profieldmanager_MainActivity_stringFromJNI env this w =
     (let hello = std_string ''Pro Field Manager Native Library - 16KB Page Aligned'';
          w1 = LOGI ''Native library loaded successfully with 16KB page alignment'' [] w;
          (r, j) = NewStringUTF env (c_str hello) (jvm w1)
      in (r, w1\<lparr>jvm := j\<rparr>))"

abbreviation stringFromJNI ::
  "'j JNIEnv \<Rightarrow> jobject \<Rightarrow> ('j, 'z) process_scheme \<Rightarrow> jstring \<times> ('j, 'z) process_scheme" where
  "stringFromJNI \<equiv> Java_com_profieldmanager_MainActivity_stringFromJNI"

text \<open>The string handed to \<^verbatim>\<open>NewStringUTF\<close> and the entry handed to the log.\<close>

definition hello_text :: string where
  "hello_text = ''Pro Field Manager Native Library - 16KB Page Aligned''"

definition loaded_entry :: log_entry where
  "loaded_entry =
     \<lparr>priority = ANDROID_LOG_INFO, tag = ''ProFieldManager'',
      fmt = ''Native library loaded successfully with 16KB page alignment'', args = []\<rparr>"

subsection \<open>The contract of \<^verbatim>\<open>NewStringUTF\<close>\<close>

text \<open>
  The JNI specification says of \<^verbatim>\<open>NewStringUTF\<close>: it returns a Java string constructed
  from the given bytes, or \<^verbatim>\<open>NULL\<close> if the string cannot be constructed. An environment
  conforms at given bytes and a given runtime state when its answer there is one of the
  two.
\<close>

definition NewStringUTF_conforms :: "'j JNIEnv \<Rightarrow> string \<Rightarrow> 'j \<Rightarrow> bool" where
  "NewStringUTF_conforms env bytes j =
     (fst (NewStringUTF env bytes j) = NULL \<or> fst (NewStringUTF env bytes j) = Some bytes)"

subsection \<open>Repeated calls\<close>

text \<open>The state after \<open>n\<close> calls in a row, each starting in the state the one before left.\<close>

primrec calls ::
  "nat \<Rightarrow> 'j JNIEnv \<Rightarrow> jobject \<Rightarrow> ('j, 'z) process_scheme \<Rightarrow> ('j, 'z) process_scheme" where
  "calls 0 env this w = w"
| "calls (Suc n) env this w = snd (stringFromJNI env this (calls n env this w))"

subsection \<open>The exported symbol\<close>

text \<open>The name the function is declared with, under \<^verbatim>\<open>extern "C"\<close>.\<close>

definition exported_symbol :: string where
  "exported_symbol = ''Java_com_profieldmanager_MainActivity_stringFromJNI''"

text \<open>
  The name under which a Java runtime looks a native method up (JNI specification,
  resolving native method names): the prefix \<^verbatim>\<open>Java_\<close>, the mangled fully qualified class
  name, an underscore, and the mangled method name. Mangling keeps ASCII letters and
  digits, turns the package separator into \<^verbatim>\<open>_\<close>, and escapes \<^verbatim>\<open>_\<close>, \<^verbatim>\<open>;\<close> and \<^verbatim>\<open>[\<close> as
  \<^verbatim>\<open>_1\<close>, \<^verbatim>\<open>_2\<close> and \<^verbatim>\<open>_3\<close>; any other character becomes \<^verbatim>\<open>_0\<close> and four hexadecimal
  digits. Names are taken to be ASCII.
\<close>

definition is_alnum :: "char \<Rightarrow> bool" where
  "is_alnum c =
     (let n = (of_char c :: nat)
      in (48 \<le> n \<and> n \<le> 57) \<or> (65 \<le> n \<and> n \<le> 90) \<or> (97 \<le> n \<and> n \<le> 122))"

definition hex_digit :: "nat \<Rightarrow> char" where
  "hex_digit n = ''0123456789abcdef'' ! (n mod 16)"

definition hex4 :: "nat \<Rightarrow> string" where
  "hex4 n = [hex_digit (n div 4096), hex_digit (n div 256), hex_digit (n div 16), hex_digit n]"

definition mangle_char :: "char \<Rightarrow> string" where
  "mangle_char c =
     (if is_alnum c then [c]
      else if c = CHR ''.'' \<or> c = CHR ''/'' then ''_''
      else if c = CHR ''_'' then ''_1''
      else if c = CHR '';'' then ''_2''
      else if c = CHR ''['' then ''_3''
      else ''_0'' @ hex4 (of_char c))"

definition jni_mangle :: "string \<Rightarrow> string" where
  "jni_mangle s = concat (map mangle_char s)"

definition jni_native_name :: "string \<Rightarrow> string \<Rightarrow> string" where
  "jni_native_name cls meth = ''Java_'' @ jni_mangle cls @ ''_'' @ jni_mangle meth"

subsection \<open>A small runtime for concrete runs\<close>

text \<open>
  The state of this runtime is the list of the strings it has allocated, and it has room
  for \<open>cap\<close> of them. Its \<^verbatim>\<open>NewStringUTF\<close> returns a string with the given contents while
  there is room, and \<^verbatim>\<open>NULL\<close> once there is none.
\<close>

definition heap_NewStringUTF :: "nat \<Rightarrow> string \<Rightarrow> string list \<Rightarrow> jstring \<times> string list" where
  "heap_NewStringUTF cap bytes heap =
     (if length heap < cap then (Some bytes, heap @ [bytes]) else (NULL, heap))"

definition heap_env :: "nat \<Rightarrow> string list JNIEnv" where
  "heap_env cap = \<lparr>NewStringUTF = heap_NewStringUTF cap\<rparr>"

definition fresh :: "string list process" where
  "fresh = \<lparr>logcat = [], jvm = []\<rparr>"

definition activity :: jobject where
  "activity = Some 0"

section \<open>What one call does\<close>

lemma c_str_hello:
  "c_str (std_string ''Pro Field Manager Native Library - 16KB Page Aligned'') = hello_text"
  by (simp add: c_str_def std_string_def NUL_def hello_text_def)

lemma LOGI_loaded:
  "LOGI ''Native library loaded successfully with 16KB page alignment'' [] w =
     w\<lparr>logcat := logcat w @ [loaded_entry]\<rparr>"
  by (simp add: LOGI_def android_log_print_def LOG_TAG_def loaded_entry_def)

lemma stringFromJNI_eq:
  "stringFromJNI env this w =
     (fst (NewStringUTF env hello_text (jvm w)),
      w\<lparr>logcat := logcat w @ [loaded_entry], jvm := snd (NewStringUTF env hello_text (jvm w))\<rparr>)"
  unfolding Java_com_profieldmanager_MainActivity_stringFromJNI_def Let_def
    c_str_hello LOGI_loaded
  by (simp add: split_beta)

lemma heap_env_conforms: "NewStringUTF_conforms (heap_env cap) bytes heap"
  by (simp add: NewStringUTF_conforms_def heap_env_def heap_NewStringUTF_def)

lemma logcat_calls: "logcat (calls n env this w) = logcat w @ replicate n loaded_entry"
proof (induction n)
  case 0
  show ?case by simp
next
  case (Suc n)
  have "logcat (calls (Suc n) env this w) = logcat (calls n env this w) @ [loaded_entry]"
    by (simp add: stringFromJNI_eq)
  also have "\<dots> = logcat w @ replicate n loaded_entry @ [loaded_entry]"
    by (simp add: Suc.IH)
  also have "replicate n loaded_entry @ [loaded_entry] = replicate (Suc n) loaded_entry"
    by (simp add: replicate_append_same)
  finally show ?case .
qed

lemma more_calls: "process.more (calls n env this w) = process.more w"
  by (induction n) (simp_all add: stringFromJNI_eq)

section \<open>The returned value\<close>

text \<open>
  C1, as stated: every invocation returns a Java string whose contents are exactly
  "Pro Field Manager Native Library - 16KB Page Aligned". This fails when the runtime
  cannot construct the string: in a runtime without room for one more string
  \<^verbatim>\<open>NewStringUTF\<close> answers \<^verbatim>\<open>NULL\<close>, and the function returns that answer, which is
  not a string with the contents of the literal.
\<close>

theorem returns_literal_counterexample:
  "fst (stringFromJNI (heap_env 0) activity fresh)
     \<noteq> Some ''Pro Field Manager Native Library - 16KB Page Aligned''"
  by (simp add: stringFromJNI_eq heap_env_def heap_NewStringUTF_def fresh_def)

text \<open>
  C1, amended: every invocation hands exactly the literal to \<^verbatim>\<open>NewStringUTF\<close> and
  returns its answer unchanged, \<^verbatim>\<open>NULL\<close> included; in every invocation in which
  \<^verbatim>\<open>NewStringUTF\<close> follows its contract and does not answer \<^verbatim>\<open>NULL\<close>, the returned
  Java string has exactly the contents "Pro Field Manager Native Library - 16KB Page
  Aligned".
\<close>

theorem returns_literal:
  "fst (stringFromJNI env this w)
     = fst (NewStringUTF env ''Pro Field Manager Native Library - 16KB Page Aligned'' (jvm w))
   \<and> (NewStringUTF_conforms env ''Pro Field Manager Native Library - 16KB Page Aligned'' (jvm w)
        \<and> fst (NewStringUTF env ''Pro Field Manager Native Library - 16KB Page Aligned'' (jvm w)) \<noteq> NULL
      \<longrightarrow> fst (stringFromJNI env this w) = Some ''Pro Field Manager Native Library - 16KB Page Aligned'')"
  by (auto simp add: stringFromJNI_eq hello_text_def NewStringUTF_conforms_def)

theorem returns_literal_witness:
  "NewStringUTF_conforms (heap_env 1) ''Pro Field Manager Native Library - 16KB Page Aligned'' (jvm fresh)
   \<and> fst (NewStringUTF (heap_env 1) ''Pro Field Manager Native Library - 16KB Page Aligned'' (jvm fresh)) \<noteq> NULL
   \<and> fst (stringFromJNI (heap_env 1) activity fresh)
       = fst (NewStringUTF (heap_env 1) ''Pro Field Manager Native Library - 16KB Page Aligned'' (jvm fresh))
   \<and> fst (stringFromJNI (heap_env 1) activity fresh) = Some ''Pro Field Manager Native Library - 16KB Page Aligned''"
proof -
  have c: "NewStringUTF_conforms (heap_env 1) ''Pro Field Manager Native Library - 16KB Page Aligned'' (jvm fresh)"
    by (rule heap_env_conforms)
  have n: "fst (NewStringUTF (heap_env 1) ''Pro Field Manager Native Library - 16KB Page Aligned'' (jvm fresh)) \<noteq> NULL"
    by (simp add: heap_env_def heap_NewStringUTF_def fresh_def)
  from returns_literal [of "heap_env 1" activity fresh] c n show ?thesis
    by blast
qed

text \<open>
  C2, as stated: for every invocation the returned value is non-null and its contents
  are non-empty. In a runtime that has room for one string, the second call in a row
  finds no room: \<^verbatim>\<open>NewStringUTF\<close> answers \<^verbatim>\<open>NULL\<close> and the function returns
  \<^verbatim>\<open>NULL\<close>. The function has no check of the answer.
\<close>

theorem non_null_counterexample:
  "fst (stringFromJNI (heap_env 1) activity (calls 1 (heap_env 1) activity fresh)) = NULL"
  by (simp add: stringFromJNI_eq heap_env_def heap_NewStringUTF_def fresh_def)

text \<open>
  C2, amended: when \<^verbatim>\<open>NewStringUTF\<close> follows its contract, the returned value is
  \<^verbatim>\<open>NULL\<close> only if \<^verbatim>\<open>NewStringUTF\<close> answered \<^verbatim>\<open>NULL\<close> for the literal (the string
  could not be constructed); in every other invocation it is a string with non-empty
  contents.
\<close>

theorem non_null_unless_allocation_fails:
  assumes "NewStringUTF_conforms env
             ''Pro Field Manager Native Library - 16KB Page Aligned'' (jvm w)"
  shows "case fst (stringFromJNI env this w) of
           None \<Rightarrow> fst (NewStringUTF env
                     ''Pro Field Manager Native Library - 16KB Page Aligned'' (jvm w)) = NULL
         | Some s \<Rightarrow> s \<noteq> []"
  using assms
  by (auto simp add: stringFromJNI_eq hello_text_def NewStringUTF_conforms_def
      split: option.splits)

theorem non_null_unless_allocation_fails_witness:
  "NewStringUTF_conforms (heap_env 1)
     ''Pro Field Manager Native Library - 16KB Page Aligned'' (jvm fresh)
   \<and> (\<exists>s. fst (stringFromJNI (heap_env 1) activity fresh) = Some s \<and> s \<noteq> [])"
proof -
  have c: "NewStringUTF_conforms (heap_env 1)
     ''Pro Field Manager Native Library - 16KB Page Aligned'' (jvm fresh)"
    by (rule heap_env_conforms)
  have r: "fst (stringFromJNI (heap_env 1) activity fresh)
             = Some ''Pro Field Manager Native Library - 16KB Page Aligned''"
    by (simp add: stringFromJNI_eq hello_text_def heap_env_def heap_NewStringUTF_def fresh_def)
  from non_null_unless_allocation_fails [OF c, of activity] c r show ?thesis
    by simp
qed

text \<open>
  C4, as stated: any two invocations produce the same returned string contents, and the
  result of call \<open>n + 1\<close> equals the result of call 1. In a runtime with room for one
  string the first call returns the string and the second call, made in the state the
  first one left, returns \<^verbatim>\<open>NULL\<close>.
\<close>

theorem same_result_counterexample:
  "fst (stringFromJNI (heap_env 1) activity (calls 1 (heap_env 1) activity fresh))
     \<noteq> fst (stringFromJNI (heap_env 1) activity fresh)"
  by (simp add: stringFromJNI_eq heap_env_def heap_NewStringUTF_def fresh_def)

text \<open>
  C4, amended: the function keeps no state of its own. The result of every invocation
  is the answer \<^verbatim>\<open>NewStringUTF\<close> gives for the literal in the runtime state the
  invocation starts in, and after any number of calls the process state outside the
  log and the runtime is as it was. Any two invocations in which \<^verbatim>\<open>NewStringUTF\<close>
  follows its contract and constructs the string return the same contents, in
  whatever environment, state and order they are made; so the result of call \<open>n + 1\<close>
  equals the result of call 1 whenever the runtime constructs the string in both.
\<close>

theorem same_contents_when_constructed:
  "fst (stringFromJNI env this w) = fst (NewStringUTF env ''Pro Field Manager Native Library - 16KB Page Aligned'' (jvm w))
   \<and> process.more (calls n env this w) = process.more w
   \<and> (NewStringUTF_conforms env ''Pro Field Manager Native Library - 16KB Page Aligned'' (jvm w)
        \<and> NewStringUTF_conforms envb ''Pro Field Manager Native Library - 16KB Page Aligned'' (jvm wb)
        \<and> fst (NewStringUTF env ''Pro Field Manager Native Library - 16KB Page Aligned'' (jvm w)) \<noteq> NULL
        \<and> fst (NewStringUTF envb ''Pro Field Manager Native Library - 16KB Page Aligned'' (jvm wb)) \<noteq> NULL
      \<longrightarrow> fst (stringFromJNI envb thisb wb) = fst (stringFromJNI env this w))
   \<and> (NewStringUTF_conforms env ''Pro Field Manager Native Library - 16KB Page Aligned'' (jvm w)
        \<and> NewStringUTF_conforms env ''Pro Field Manager Native Library - 16KB Page Aligned'' (jvm (calls n env this w))
        \<and> fst (NewStringUTF env ''Pro Field Manager Native Library - 16KB Page Aligned'' (jvm w)) \<noteq> NULL
        \<and> fst (NewStringUTF env ''Pro Field Manager Native Library - 16KB Page Aligned'' (jvm (calls n env this w))) \<noteq> NULL
      \<longrightarrow> fst (stringFromJNI env this (calls n env this w))
            = fst (stringFromJNI env this w))"
proof -
  have answer: "fst (stringFromJNI e t v) = fst (NewStringUTF e ''Pro Field Manager Native Library - 16KB Page Aligned'' (jvm v))"
    for e :: "'e JNIEnv" and t and v :: "('e, 'f) process_scheme"
    by (simp add: stringFromJNI_eq hello_text_def)
  have constructed: "fst (NewStringUTF e ''Pro Field Manager Native Library - 16KB Page Aligned'' j) = Some ''Pro Field Manager Native Library - 16KB Page Aligned''"
    if "NewStringUTF_conforms e ''Pro Field Manager Native Library - 16KB Page Aligned'' j" and "fst (NewStringUTF e ''Pro Field Manager Native Library - 16KB Page Aligned'' j) \<noteq> NULL"
    for e :: "'e JNIEnv" and j
    using that by (auto simp add: NewStringUTF_conforms_def)
  show ?thesis
    by (simp add: answer more_calls constructed)
qed

theorem same_contents_when_constructed_witness:
  "NewStringUTF_conforms (heap_env 2) ''Pro Field Manager Native Library - 16KB Page Aligned'' (jvm fresh)
   \<and> NewStringUTF_conforms (heap_env 2) ''Pro Field Manager Native Library - 16KB Page Aligned'' (jvm (calls 1 (heap_env 2) activity fresh))
   \<and> fst (NewStringUTF (heap_env 2) ''Pro Field Manager Native Library - 16KB Page Aligned'' (jvm fresh)) \<noteq> NULL
   \<and> fst (NewStringUTF (heap_env 2) ''Pro Field Manager Native Library - 16KB Page Aligned'' (jvm (calls 1 (heap_env 2) activity fresh))) \<noteq> NULL
   \<and> fst (stringFromJNI (heap_env 2) activity (calls 1 (heap_env 2) activity fresh))
       = fst (stringFromJNI (heap_env 2) activity fresh)
   \<and> fst (stringFromJNI (heap_env 2) activity fresh) = Some ''Pro Field Manager Native Library - 16KB Page Aligned''"
proof -
  have n1: "fst (NewStringUTF (heap_env 2) ''Pro Field Manager Native Library - 16KB Page Aligned'' (jvm fresh)) \<noteq> NULL"
    by (simp add: heap_env_def heap_NewStringUTF_def fresh_def)
  have n2: "fst (NewStringUTF (heap_env 2) ''Pro Field Manager Native Library - 16KB Page Aligned'' (jvm (calls 1 (heap_env 2) activity fresh)))
              \<noteq> NULL"
    by (simp add: stringFromJNI_eq heap_env_def heap_NewStringUTF_def fresh_def)
  have r: "fst (stringFromJNI (heap_env 2) activity fresh) = Some ''Pro Field Manager Native Library - 16KB Page Aligned''"
    by (simp add: stringFromJNI_eq hello_text_def heap_env_def heap_NewStringUTF_def fresh_def)
  from same_contents_when_constructed
         [of "heap_env 2" activity fresh 1 "heap_env 2" fresh activity]
       heap_env_conforms [of 2 "''Pro Field Manager Native Library - 16KB Page Aligned''" "jvm fresh"]
       heap_env_conforms [of 2 "''Pro Field Manager Native Library - 16KB Page Aligned''" "jvm (calls 1 (heap_env 2) activity fresh)"]
       n1 n2 r
  show ?thesis by blast
qed

text \<open>
  C10: the receiver, the second parameter, is never read: two invocations that differ
  only in the object reference passed return the same value and leave the same state,
  the log included.
\<close>

theorem receiver_is_ignored:
  "stringFromJNI env this1 w = stringFromJNI env this2 w"
  by (simp add: stringFromJNI_eq)

section \<open>Control flow\<close>

text \<open>
  C3, as stated: the function always succeeds. In a runtime without room for one more
  string the allocation fails, \<^verbatim>\<open>NewStringUTF\<close> answers \<^verbatim>\<open>NULL\<close>, and the invocation
  ends with \<^verbatim>\<open>NULL\<close> instead of the string, after having written its log entry.
\<close>

theorem always_succeeds_counterexample:
  "fst (NewStringUTF (heap_env 0) ''Pro Field Manager Native Library - 16KB Page Aligned'' (jvm fresh)) = NULL
   \<and> stringFromJNI (heap_env 0) activity fresh
       = (NULL,
          \<lparr>logcat =
            [\<lparr>priority = ANDROID_LOG_INFO, tag = ''ProFieldManager'',
             fmt = ''Native library loaded successfully with 16KB page alignment'',
             args = []\<rparr>],
           jvm = []\<rparr>)"
  by (simp add: stringFromJNI_eq hello_text_def loaded_entry_def heap_env_def
      heap_NewStringUTF_def fresh_def)

text \<open>
  C3, amended: the function has no error handling of its own; no branch of it checks,
  reports or signals an error. Every invocation returns the answer of \<^verbatim>\<open>NewStringUTF\<close>
  for the literal as it is and changes nothing but the log, by its one entry, and the
  runtime, left in the state \<^verbatim>\<open>NewStringUTF\<close> left it in. So the invocation yields the
  string exactly when \<^verbatim>\<open>NewStringUTF\<close> constructs it, and a failed allocation is
  not handled distinctly: its \<^verbatim>\<open>NULL\<close> is returned like any other answer.
\<close>

theorem no_failure_path:
  "stringFromJNI env this w
     = (fst (NewStringUTF env ''Pro Field Manager Native Library - 16KB Page Aligned'' (jvm w)),
        w\<lparr>logcat := logcat w @
            [\<lparr>priority = ANDROID_LOG_INFO, tag = ''ProFieldManager'',
             fmt = ''Native library loaded successfully with 16KB page alignment'',
             args = []\<rparr>],
          jvm := snd (NewStringUTF env ''Pro Field Manager Native Library - 16KB Page Aligned'' (jvm w))\<rparr>)
   \<and> (fst (stringFromJNI env this w) = NULL)
     = (fst (NewStringUTF env ''Pro Field Manager Native Library - 16KB Page Aligned'' (jvm w)) = NULL)"
  by (simp add: stringFromJNI_eq hello_text_def loaded_entry_def)

section \<open>Effects\<close>

text \<open>
  C5: every invocation adds exactly one entry to the log, with priority INFO, the tag
  "ProFieldManager" and the message "Native library loaded successfully with 16KB page
  alignment"; so \<open>n\<close> calls in a row add \<open>n\<close> such entries.
\<close>

theorem one_log_entry_per_call:
  "logcat (snd (stringFromJNI env this w))
     = logcat w @
       [\<lparr>priority = ANDROID_LOG_INFO, tag = ''ProFieldManager'',
         fmt = ''Native library loaded successfully with 16KB page alignment'', args = []\<rparr>]
   \<and> message \<lparr>priority = ANDROID_LOG_INFO, tag = ''ProFieldManager'',
         fmt = ''Native library loaded successfully with 16KB page alignment'', args = []\<rparr>
     = Some ''Native library loaded successfully with 16KB page alignment''
   \<and> length (logcat (calls n env this w)) = length (logcat w) + n"
  by (simp add: stringFromJNI_eq loaded_entry_def message_def LOG_BUF_SIZE_def logcat_calls)

text \<open>
  C6: an invocation changes nothing but the log, which gains the one entry, and the
  state of the Java runtime, which is changed by \<^verbatim>\<open>NewStringUTF\<close> constructing the
  returned string. Every other part of the process state is as it was, after one call
  and after any number of calls.
\<close>

theorem writes_no_other_state:
  "snd (stringFromJNI env this w)
     = w\<lparr>logcat := logcat w @
           [\<lparr>priority = ANDROID_LOG_INFO, tag = ''ProFieldManager'',
             fmt = ''Native library loaded successfully with 16KB page alignment'',
             args = []\<rparr>],
         jvm := snd (NewStringUTF env
                  ''Pro Field Manager Native Library - 16KB Page Aligned'' (jvm w))\<rparr>
   \<and> process.more (snd (stringFromJNI env this w)) = process.more w
   \<and> process.more (calls n env this w) = process.more w"
  by (simp add: stringFromJNI_eq loaded_entry_def hello_text_def more_calls)

section \<open>The binding\<close>

text \<open>
  C8: the exported symbol is the name the JNI naming convention derives from the class
  \<^verbatim>\<open>com.profieldmanager.MainActivity\<close> and the method \<^verbatim>\<open>stringFromJNI\<close>. The function takes
  the environment and the receiver and returns one \<^verbatim>\<open>jstring\<close>.
\<close>

theorem symbol_follows_jni_convention:
  "jni_native_name ''com.profieldmanager.MainActivity'' ''stringFromJNI'' = exported_symbol
   \<and> exported_symbol = ''Java_com_profieldmanager_MainActivity_stringFromJNI''
   \<and> (\<exists>r :: jstring.
        fst (Java_com_profieldmanager_MainActivity_stringFromJNI
               (env :: 'j JNIEnv) (this :: jobject) (w :: 'j process)) = r)"
  by (simp add: jni_native_name_def jni_mangle_def mangle_char_def is_alnum_def
      exported_symbol_def)

end
